theory Spec2Isabelle
  imports Main "HOL-Library.AList"
begin

section \<open>Python values and failures\<close>

text \<open>
  The select platform of the ThinQ integration (\<^verbatim>\<open>select.py\<close>) reads attributes of a device
  object and passes them through \<^verbatim>\<open>str\<close>, \<^verbatim>\<open>int\<close>, \<^verbatim>\<open>isinstance\<close>, comparisons and
  dictionary lookups. The attributes are dynamically typed, so the model keeps a small
  universe of the values a device status reports. A string of the model is the UTF-8
  encoding of the Python string.
\<close>

text \<open>
  Modelled from the spec: the enumeration \<^verbatim>\<open>ACAutoDryMode\<close> is imported from
  \<^verbatim>\<open>wideq/devices/ac.py\<close>, a module outside \<^verbatim>\<open>select.py\<close>. Its members are the
  five that \<^verbatim>\<open>AUTO_DRY_LABEL\<close> names (the spec speaks of five known values), and it is
  taken as a plain enumeration: a member is equal to itself only, and has no integer value.
\<close>

datatype ACAutoDryMode = OFF | MIN_10 | MIN_30 | MIN_60 | AI

text \<open>
  \<open>PyInt\<close> also stands for the members of an \<^verbatim>\<open>IntEnum\<close>, which are instances of
  \<^verbatim>\<open>int\<close> and print as their integer value. \<open>PyList\<close> is a list of integers; the lists
  are the values of the model that cannot be hashed.
\<close>

datatype pyval =
    PyNone
  | PyBool bool
  | PyInt int
  | PyStr string
  | PyAutoDry ACAutoDryMode
  | PyList "int list"

text \<open>
  The exceptions of the model. \<open>RemoteError\<close> is any exception that the awaited call of
  a device method raises; its argument identifies it.
\<close>

datatype py_error = TypeError | ValueError | KeyError | RemoteError string

subsection \<open>\<^verbatim>\<open>str\<close> of a value\<close>

definition digit_char :: "nat \<Rightarrow> char" where
  "digit_char d = ''0123456789'' ! d"

fun digits :: "nat \<Rightarrow> string" where
  "digits n = (if n < 10 then [] else digits (n div 10)) @ [digit_char (n mod 10)]"

declare digits.simps [simp del]

definition str_int :: "int \<Rightarrow> string" where
  "str_int i = (if i < 0 then CHR ''-'' # digits (nat (- i)) else digits (nat i))"

fun enum_name :: "ACAutoDryMode \<Rightarrow> string" where
  "enum_name OFF = ''OFF''"
| "enum_name MIN_10 = ''MIN_10''"
| "enum_name MIN_30 = ''MIN_30''"
| "enum_name MIN_60 = ''MIN_60''"
| "enum_name AI = ''AI''"

text \<open>\<^verbatim>\<open>sep.join(xs)\<close>.\<close>

fun join :: "string \<Rightarrow> string list \<Rightarrow> string" where
  "join sep [] = []"
| "join sep [x] = x"
| "join sep (x # y # ys) = x @ sep @ join sep (y # ys)"

fun py_str :: "pyval \<Rightarrow> string" where
  "py_str PyNone = ''None''"
| "py_str (PyBool b) = (if b then ''True'' else ''False'')"
| "py_str (PyInt i) = str_int i"
| "py_str (PyStr s) = s"
| "py_str (PyAutoDry m) = ''ACAutoDryMode.'' @ enum_name m"
| "py_str (PyList xs) = ''['' @ join '', '' (map str_int xs) @ '']''"

subsection \<open>\<^verbatim>\<open>int\<close> of a value\<close>

text \<open>
  \<^verbatim>\<open>int(s)\<close> of a string, in base ten, as CPython 3.11 computes it. First every
  character beyond ASCII is replaced: a Unicode white space by a space, a Unicode decimal
  digit by its ASCII digit, any other by \<open>?\<close>. Then leading white space is skipped, one
  sign may follow, then the digits, which single underscores may group, then trailing
  white space up to the end. More than 4300 digits (the interpreter's default bound) are
  refused. Every failure is a \<^verbatim>\<open>ValueError\<close>.
\<close>

text \<open>
  The white space beyond ASCII, and the code points of the zeros of the decimal digits
  beyond ASCII (each is followed by its digits one to nine), of Unicode 14.
\<close>

definition unicode_spaces :: "nat list" where
  "unicode_spaces =
     [0x85, 0xA0, 0x1680, 0x2000, 0x2001, 0x2002, 0x2003, 0x2004, 0x2005,
      0x2006, 0x2007, 0x2008, 0x2009, 0x200A, 0x2028, 0x2029, 0x202F, 0x205F,
      0x3000]"

definition decimal_zeros :: "nat list" where
  "decimal_zeros =
     [0x660, 0x6F0, 0x7C0, 0x966, 0x9E6, 0xA66, 0xAE6, 0xB66, 0xBE6, 0xC66,
      0xCE6, 0xD66, 0xDE6, 0xE50, 0xED0, 0xF20, 0x1040, 0x1090, 0x17E0,
      0x1810, 0x1946, 0x19D0, 0x1A80, 0x1A90, 0x1B50, 0x1BB0, 0x1C40, 0x1C50,
      0xA620, 0xA8D0, 0xA900, 0xA9D0, 0xA9F0, 0xAA50, 0xABF0, 0xFF10,
      0x104A0, 0x10D30, 0x11066, 0x110F0, 0x11136, 0x111D0, 0x112F0, 0x11450,
      0x114D0, 0x11650, 0x116C0, 0x11730, 0x118E0, 0x11950, 0x11C50, 0x11D50,
      0x11DA0, 0x16A60, 0x16AC0, 0x16B50, 0x1D7CE, 0x1D7D8, 0x1D7E2, 0x1D7EC,
      0x1D7F6, 0x1E140, 0x1E2F0, 0x1E950, 0x1FBF0]"

definition non_ascii_char :: "nat \<Rightarrow> char" where
  "non_ascii_char cp =
     (if cp \<in> set unicode_spaces then CHR '' ''
      else
        (case find (\<lambda>z. z \<le> cp \<and> cp < z + 10) decimal_zeros of
           Some z \<Rightarrow> digit_char (cp - z)
         | None \<Rightarrow> CHR ''?''))"

text \<open>
  The replacement, byte by byte along the UTF-8 encoding. The state is \<open>None\<close> between
  characters; inside a character it holds the number of bytes still to come, the bits
  read so far and the least code point that an encoding of this length may have. A byte
  that does not fit yields \<open>?\<close>.
\<close>

fun to_ascii :: "(nat \<times> nat \<times> nat) option \<Rightarrow> string \<Rightarrow> string" where
  "to_ascii None [] = []"
| "to_ascii (Some st) [] = ''?''"
| "to_ascii None (c # cs) =
     (if (of_char c :: nat) < 0x80 then c # to_ascii None cs
      else if 0xC2 \<le> (of_char c :: nat) \<and> (of_char c :: nat) < 0xE0
        then to_ascii (Some (1, of_char c - 0xC0, 0x80)) cs
      else if 0xE0 \<le> (of_char c :: nat) \<and> (of_char c :: nat) < 0xF0
        then to_ascii (Some (2, of_char c - 0xE0, 0x800)) cs
      else if 0xF0 \<le> (of_char c :: nat) \<and> (of_char c :: nat) < 0xF5
        then to_ascii (Some (3, of_char c - 0xF0, 0x10000)) cs
      else CHR ''?'' # to_ascii None cs)"
| "to_ascii (Some (k, bits, least)) (c # cs) =
     (if 0x80 \<le> (of_char c :: nat) \<and> (of_char c :: nat) < 0xC0 then
        (if k = 1 then
           (if least \<le> 64 * bits + (of_char c - 0x80) \<and>
               64 * bits + (of_char c - 0x80) < 0x110000
            then non_ascii_char (64 * bits + (of_char c - 0x80))
            else CHR ''?'') # to_ascii None cs
         else to_ascii (Some (k - 1, 64 * bits + (of_char c - 0x80), least)) cs)
      else CHR ''?'' # to_ascii None cs)"

definition is_space :: "char \<Rightarrow> bool" where
  "is_space c \<longleftrightarrow>
     c \<in> set [CHR '' '', CHR 0x09, CHR 0x0A, CHR 0x0B, CHR 0x0C, CHR 0x0D]"

definition strip :: "string \<Rightarrow> string" where
  "strip s = rev (dropWhile is_space (rev (dropWhile is_space s)))"

definition digit_val :: "char \<Rightarrow> nat option" where
  "digit_val c = map_of (zip ''0123456789'' [0 ..< 10]) c"

fun py_digits :: "nat \<Rightarrow> string \<Rightarrow> nat option" where
  "py_digits acc [] = Some acc"
| "py_digits acc (c # cs) =
     (case digit_val c of
        Some v \<Rightarrow> py_digits (10 * acc + v) cs
      | None \<Rightarrow>
          (if c = CHR ''_'' then
             (case cs of
                [] \<Rightarrow> None
              | d # ds \<Rightarrow>
                  (case digit_val d of
                     None \<Rightarrow> None
                   | Some v \<Rightarrow> py_digits (10 * acc + v) ds))
           else None))"

definition int_max_str_digits :: nat where
  "int_max_str_digits = 4300"

definition unsigned_of_str :: "string \<Rightarrow> py_error + nat" where
  "unsigned_of_str s =
     (case s of
        [] \<Rightarrow> Inl ValueError
      | d # ds \<Rightarrow>
          (case digit_val d of
             None \<Rightarrow> Inl ValueError
           | Some v \<Rightarrow>
               (case py_digits v ds of
                  None \<Rightarrow> Inl ValueError
                | Some n \<Rightarrow>
                    if int_max_str_digits < length (filter (\<lambda>c. c \<noteq> CHR ''_'') s)
                    then Inl ValueError
                    else Inr n)))"

definition int_of_str :: "string \<Rightarrow> py_error + int" where
  "int_of_str s =
     (case strip (to_ascii None s) of
        [] \<Rightarrow> Inl ValueError
      | c # cs \<Rightarrow>
          (if c = CHR ''-'' then
             (case unsigned_of_str cs of Inl e \<Rightarrow> Inl e | Inr n \<Rightarrow> Inr (- int n))
           else if c = CHR ''+'' then
             (case unsigned_of_str cs of Inl e \<Rightarrow> Inl e | Inr n \<Rightarrow> Inr (int n))
           else
             (case unsigned_of_str (c # cs) of Inl e \<Rightarrow> Inl e | Inr n \<Rightarrow> Inr (int n))))"

fun py_int :: "pyval \<Rightarrow> py_error + int" where
  "py_int PyNone = Inl TypeError"
| "py_int (PyBool b) = Inr (if b then 1 else 0)"
| "py_int (PyInt i) = Inr i"
| "py_int (PyStr s) = int_of_str s"
| "py_int (PyAutoDry m) = Inl TypeError"
| "py_int (PyList xs) = Inl TypeError"

subsection \<open>\<^verbatim>\<open>isinstance\<close>, comparison, truth value\<close>

fun isinstance_int :: "pyval \<Rightarrow> bool" where
  "isinstance_int (PyInt i) = True"
| "isinstance_int (PyBool b) = True"
| "isinstance_int v = False"

text \<open>
  \<^verbatim>\<open>i <= v\<close> and \<^verbatim>\<open>v <= i\<close> for an integer literal \<open>i\<close>: defined when \<open>v\<close> is an
  integer or a boolean (which counts as 0 or 1), a \<^verbatim>\<open>TypeError\<close> otherwise.
\<close>

fun int_value :: "pyval \<Rightarrow> py_error + int" where
  "int_value (PyInt i) = Inr i"
| "int_value (PyBool b) = Inr (if b then 1 else 0)"
| "int_value v = Inl TypeError"

definition int_le_val :: "int \<Rightarrow> pyval \<Rightarrow> py_error + bool" where
  "int_le_val i v = (case int_value v of Inl e \<Rightarrow> Inl e | Inr j \<Rightarrow> Inr (i \<le> j))"

definition val_le_int :: "pyval \<Rightarrow> int \<Rightarrow> py_error + bool" where
  "val_le_int v i = (case int_value v of Inl e \<Rightarrow> Inl e | Inr j \<Rightarrow> Inr (j \<le> i))"

text \<open>\<^verbatim>\<open>bool(xs)\<close> and \<^verbatim>\<open>xs or []\<close> of an attribute that is \<^verbatim>\<open>None\<close> or a list.\<close>

definition bool_list :: "'a list option \<Rightarrow> bool" where
  "bool_list xs = (case xs of None \<Rightarrow> False | Some ys \<Rightarrow> ys \<noteq> [])"

definition or_empty :: "'a list option \<Rightarrow> 'a list" where
  "or_empty xs = (case xs of None \<Rightarrow> [] | Some ys \<Rightarrow> ys)"

text \<open>A list comprehension whose element expression may raise: the first failure ends it.\<close>

fun map_raise :: "('a \<Rightarrow> py_error + 'b) \<Rightarrow> 'a list \<Rightarrow> py_error + 'b list" where
  "map_raise f [] = Inr []"
| "map_raise f (x # xs) =
     (case f x of
        Inl e \<Rightarrow> Inl e
      | Inr y \<Rightarrow> (case map_raise f xs of Inl e \<Rightarrow> Inl e | Inr ys \<Rightarrow> Inr (y # ys)))"

subsection \<open>Dictionaries\<close>

text \<open>
  A dictionary is the list of its items. A lookup hashes the key first, so a key that
  cannot be hashed makes \<^verbatim>\<open>k in d\<close>, \<^verbatim>\<open>d[k]\<close> and \<^verbatim>\<open>d.get(k)\<close> raise \<^verbatim>\<open>TypeError\<close>; a
  string can always be hashed. The keys that the module's own dictionary holds are
  members of a plain enumeration, which are equal to themselves only.
\<close>

fun hashable :: "pyval \<Rightarrow> bool" where
  "hashable (PyList xs) = False"
| "hashable v = True"

definition contains_val :: "(pyval \<times> 'v) list \<Rightarrow> pyval \<Rightarrow> py_error + bool" where
  "contains_val d k = (if hashable k then Inr (k \<in> fst ` set d) else Inl TypeError)"

definition getitem_val :: "(pyval \<times> 'v) list \<Rightarrow> pyval \<Rightarrow> py_error + 'v" where
  "getitem_val d k =
     (if hashable k then (case map_of d k of None \<Rightarrow> Inl KeyError | Some v \<Rightarrow> Inr v)
      else Inl TypeError)"

definition get_val :: "(pyval \<times> string) list \<Rightarrow> pyval \<Rightarrow> py_error + pyval" where
  "get_val d k =
     (if hashable k then Inr (case map_of d k of None \<Rightarrow> PyNone | Some v \<Rightarrow> PyStr v)
      else Inl TypeError)"

text \<open>\<^verbatim>\<open>d[k]\<close> and \<^verbatim>\<open>d.get(k)\<close> for a string \<open>k\<close>.\<close>

definition getitem :: "(string \<times> 'v) list \<Rightarrow> string \<Rightarrow> py_error + 'v" where
  "getitem d k = (case map_of d k of None \<Rightarrow> Inl KeyError | Some v \<Rightarrow> Inr v)"

definition dict_get :: "(string \<rightharpoonup> pyval) \<Rightarrow> string \<Rightarrow> pyval" where
  "dict_get d k = (case d k of None \<Rightarrow> PyNone | Some v \<Rightarrow> v)"

section \<open>The device collaborator\<close>

text \<open>
  The attributes of the device object \<^verbatim>\<open>x.device\<close> that the descriptors read. The device
  classes belong to the \<^verbatim>\<open>wideq\<close> package; the model takes each attribute as a field.

  Three of the attributes yield a list that a descriptor passes on as it is, so the
  identity of that list matters. The device keeps its list objects in \<open>objects\<close>, by
  address, and such an attribute holds the address of the list it yields. The device can
  change a list in place (the same address, other items) or let the attribute yield
  another list (another address).
\<close>

type_synonym addr = nat

record ThinQDevice =
  objects :: "addr \<Rightarrow> string list"
  course_list :: addr
  select_course_enabled :: bool
  selected_course :: pyval
  display_scroll_speeds :: addr
  defrost_weight_units :: addr
  vertical_step_modes :: "pyval list option"
  vertical_step_mode :: pyval
  auto_dry_modes :: "pyval list option"
  auto_dry_mode :: pyval

text \<open>The cached state snapshot \<^verbatim>\<open>api.state\<close> with its generic feature map.\<close>

record DeviceState =
  device_features :: "string \<rightharpoonup> pyval"

text \<open>
  \<^verbatim>\<open>LGEDevice\<close>, the wrapper that every closure receives as \<^verbatim>\<open>x\<close> and the entity keeps as
  \<^verbatim>\<open>self._api\<close>. \<open>state\<close> is \<open>None\<close> when there is no snapshot (a false \<^verbatim>\<open>api.state\<close>).
\<close>

record LGEDevice =
  device :: ThinQDevice
  unique_id :: string
  device_info :: string
  available :: bool
  available_features :: "string \<rightharpoonup> pyval"
  state :: "DeviceState option"

text \<open>
  The methods that the platform calls on the device. A \<^verbatim>\<open>select_option_fn\<close> builds the
  call of a setter; awaiting it runs the call against the appliance.
\<close>

datatype device_call =
    SelectStartCourse string
  | SetDisplayScrollSpeed string
  | SetDefrostWeightUnit string
  | SetVerticalStepMode int
  | SetAutoDryMode pyval
  | AsyncSetUpdated

section \<open>Descriptors\<close>

datatype EntityCategory = CONFIG | DIAGNOSTIC

text \<open>
  What an \<^verbatim>\<open>options_fn\<close> returns is a list object: either a list that the function has
  just built, which nothing else refers to, or a list of the device, by its address.
  \<open>list_items\<close> reads the items of such a list, as the device has it at the moment.
\<close>

datatype list_obj = NewList "string list" | DeviceList addr

definition list_items :: "LGEDevice \<Rightarrow> list_obj \<Rightarrow> string list" where
  "list_items x l =
     (case l of
        NewList xs \<Rightarrow> xs
      | DeviceList a \<Rightarrow> objects (device x) a)"

record ThinQSelectEntityDescription =
  key :: string
  name :: string
  icon :: string
  entity_category :: "EntityCategory option"
  options_fn :: "LGEDevice \<Rightarrow> py_error + list_obj"
  select_option_fn :: "LGEDevice \<Rightarrow> string \<Rightarrow> py_error + device_call"
  available_fn :: "(LGEDevice \<Rightarrow> bool) option"
  value_fn :: "(LGEDevice \<Rightarrow> py_error + pyval) option"

text \<open>
  \<^verbatim>\<open>DeviceType\<close> is an enumeration of \<^verbatim>\<open>wideq\<close>: the tables name two of its members, the
  others are numbered. The constants of \<^verbatim>\<open>wideq\<close> that the tables use, the two feature
  keys of \<^verbatim>\<open>MicroWaveFeatures\<close> and the list \<^verbatim>\<open>WM_DEVICE_TYPES\<close>, are parameters of the
  model.
\<close>

datatype DeviceType = MICROWAVE | AC | DeviceTypeOther nat

record wideq_consts =
  DISPLAY_SCROLL_SPEED :: string
  WEIGHT_UNIT :: string
  WM_DEVICE_TYPES :: "DeviceType list"

definition WASH_DEV_SELECT :: "ThinQSelectEntityDescription list" where
  "WASH_DEV_SELECT =
     [\<lparr> key = ''course_selection'',
        name = ''Course selection'',
        icon = ''mdi:tune-vertical-variant'',
        entity_category = None,
        options_fn = (\<lambda>x. Inr (DeviceList (course_list (device x)))),
        select_option_fn = (\<lambda>x option. Inr (SelectStartCourse option)),
        available_fn = Some (\<lambda>x. select_course_enabled (device x)),
        value_fn = Some (\<lambda>x. Inr (selected_course (device x))) \<rparr>]"

definition MICROWAVE_SELECT :: "wideq_consts \<Rightarrow> ThinQSelectEntityDescription list" where
  "MICROWAVE_SELECT c =
     [\<lparr> key = DISPLAY_SCROLL_SPEED c,
        name = ''Display scroll speed'',
        icon = ''mdi:format-pilcrow-arrow-right'',
        entity_category = Some CONFIG,
        options_fn = (\<lambda>x. Inr (DeviceList (display_scroll_speeds (device x)))),
        select_option_fn = (\<lambda>x option. Inr (SetDisplayScrollSpeed option)),
        available_fn = None,
        value_fn = None \<rparr>,
      \<lparr> key = WEIGHT_UNIT c,
        name = ''Weight unit'',
        icon = ''mdi:weight'',
        entity_category = Some CONFIG,
        options_fn = (\<lambda>x. Inr (DeviceList (defrost_weight_units (device x)))),
        select_option_fn = (\<lambda>x option. Inr (SetDefrostWeightUnit option)),
        available_fn = None,
        value_fn = None \<rparr>]"

subsection \<open>AC vertical wind step\<close>

definition vstep_options :: "LGEDevice \<Rightarrow> py_error + list_obj" where
  "vstep_options x =
     (case map_raise (\<lambda>m. case py_int m of Inl e \<Rightarrow> Inl e | Inr i \<Rightarrow> Inr (py_str (PyInt i)))
             (or_empty (vertical_step_modes (device x))) of
        Inl e \<Rightarrow> Inl e
      | Inr xs \<Rightarrow> Inr (NewList xs))"

definition vstep_select_option :: "LGEDevice \<Rightarrow> string \<Rightarrow> py_error + device_call" where
  "vstep_select_option x option =
     (case py_int (PyStr option) of Inl e \<Rightarrow> Inl e | Inr i \<Rightarrow> Inr (SetVerticalStepMode i))"

definition vstep_value :: "LGEDevice \<Rightarrow> py_error + pyval" where
  "vstep_value x =
     (let v = vertical_step_mode (device x) in
      if isinstance_int v then
        (case int_le_val 1 v of
           Inl e \<Rightarrow> Inl e
         | Inr lo \<Rightarrow>
             if lo then
               (case val_le_int v 6 of
                  Inl e \<Rightarrow> Inl e
                | Inr hi \<Rightarrow> if hi then Inr (PyStr (py_str v)) else Inr PyNone)
             else Inr PyNone)
      else Inr PyNone)"

definition AC_VSTEP_SELECT :: "ThinQSelectEntityDescription list" where
  "AC_VSTEP_SELECT =
     [\<lparr> key = ''ac_vertical_wind_step'',
        name = ''Vertical Wind Step'',
        icon = ''mdi:unfold-more-vertical'',
        entity_category = None,
        options_fn = vstep_options,
        select_option_fn = vstep_select_option,
        available_fn = Some (\<lambda>x. bool_list (vertical_step_modes (device x))),
        value_fn = Some vstep_value \<rparr>]"

subsection \<open>AC auto dry\<close>

text \<open>
  The labels are Korean text; a string of the model is the UTF-8 encoding of the label.
\<close>

definition AUTO_DRY_LABEL :: "(pyval \<times> string) list" where
  "AUTO_DRY_LABEL =
     [(PyAutoDry OFF, [CHR 0xEA, CHR 0xBA, CHR 0xBC, CHR 0xEC, CHR 0xA7, CHR 0x90]),
      (PyAutoDry MIN_10, [CHR ''1'', CHR ''0'', CHR 0xEB, CHR 0xB6, CHR 0x84]),
      (PyAutoDry MIN_30, [CHR ''3'', CHR ''0'', CHR 0xEB, CHR 0xB6, CHR 0x84]),
      (PyAutoDry MIN_60, [CHR ''6'', CHR ''0'', CHR 0xEB, CHR 0xB6, CHR 0x84]),
      (PyAutoDry AI, [CHR ''A'', CHR ''I'', CHR 0xEA, CHR 0xB1, CHR 0xB4, CHR 0xEC, CHR 0xA1, CHR 0xB0])]"

text \<open>The reverse dictionary: built entry by entry, a later entry replacing an equal key.\<close>

definition AUTO_DRY_FROM_LABEL :: "(string \<times> pyval) list" where
  "AUTO_DRY_FROM_LABEL = fold (\<lambda>(k, v) d. AList.update v k d) AUTO_DRY_LABEL []"

definition autodry_options :: "LGEDevice \<Rightarrow> py_error + list_obj" where
  "autodry_options x =
     (case map_raise (getitem_val AUTO_DRY_LABEL) (or_empty (auto_dry_modes (device x))) of
        Inl e \<Rightarrow> Inl e
      | Inr xs \<Rightarrow> Inr (NewList xs))"

definition autodry_select_option :: "LGEDevice \<Rightarrow> string \<Rightarrow> py_error + device_call" where
  "autodry_select_option x option =
     (case getitem AUTO_DRY_FROM_LABEL option of
        Inl e \<Rightarrow> Inl e
      | Inr m \<Rightarrow> Inr (SetAutoDryMode m))"

definition autodry_value :: "LGEDevice \<Rightarrow> py_error + pyval" where
  "autodry_value x =
     (case contains_val AUTO_DRY_LABEL (auto_dry_mode (device x)) of
        Inl e \<Rightarrow> Inl e
      | Inr known \<Rightarrow>
          if known then get_val AUTO_DRY_LABEL (auto_dry_mode (device x)) else Inr PyNone)"

definition AC_AUTODRY_SELECT :: "ThinQSelectEntityDescription list" where
  "AC_AUTODRY_SELECT =
     [\<lparr> key = ''ac_autodry_mode'',
        name = ''Auto Dry'',
        icon = ''mdi:hair-dryer'',
        entity_category = None,
        options_fn = autodry_options,
        select_option_fn = autodry_select_option,
        available_fn = Some (\<lambda>x. bool_list (auto_dry_modes (device x))),
        value_fn = Some autodry_value \<rparr>]"

subsection \<open>The registry\<close>

text \<open>
  \<^verbatim>\<open>SELECT_ENTITIES\<close> is a dictionary literal: the entries in the order written, an entry
  for a key already present replacing its value in place.
\<close>

definition SELECT_ENTITIES ::
  "wideq_consts \<Rightarrow> (DeviceType \<times> ThinQSelectEntityDescription list) list" where
  "SELECT_ENTITIES c =
     fold (\<lambda>dev_type d. AList.update dev_type WASH_DEV_SELECT d) (WM_DEVICE_TYPES c)
       (AList.update AC AC_VSTEP_SELECT (AList.update MICROWAVE (MICROWAVE_SELECT c) []))"

section \<open>Existence and discovery\<close>

definition select_exist :: "LGEDevice \<Rightarrow> ThinQSelectEntityDescription \<Rightarrow> bool" where
  "select_exist lge_device select_desc =
     (if value_fn select_desc \<noteq> None then True
      else if key select_desc \<in> dom (available_features lge_device) then True
      else False)"

section \<open>The entity\<close>

text \<open>
  \<^verbatim>\<open>LGESelect\<close>. The entity keeps a reference to the device wrapper; the field \<open>api\<close> holds
  what that object currently contains, its list objects included, so a change of the
  device's state is an update of that field. The other fields are the attributes that
  \<^verbatim>\<open>__init__\<close> assigns; \<open>attr_options\<close> is the list object that \<^verbatim>\<open>options_fn\<close> returned, not
  a copy of it.
\<close>

record LGESelect =
  api :: LGEDevice
  entity_description :: ThinQSelectEntityDescription
  attr_unique_id :: string
  attr_device_info :: string
  attr_options :: list_obj

text \<open>\<^verbatim>\<open>__init__\<close>: it fails when the descriptor's \<^verbatim>\<open>options_fn\<close> raises.\<close>

definition LGESelect_init ::
  "LGEDevice \<Rightarrow> ThinQSelectEntityDescription \<Rightarrow> py_error + LGESelect" where
  "LGESelect_init api0 description =
     (case options_fn description api0 of
        Inl e \<Rightarrow> Inl e
      | Inr opts \<Rightarrow>
          Inr \<lparr> api = api0,
                entity_description = description,
                attr_unique_id = unique_id api0 @ ''-'' @ key description @ ''-select'',
                attr_device_info = device_info api0,
                attr_options = opts \<rparr>)"

text \<open>
  The appliance behind the device object: given the calls made so far and the call that is
  awaited, it answers with the exception the call raises, or \<open>None\<close> when it completes.
\<close>

type_synonym remote = "device_call list \<Rightarrow> device_call \<Rightarrow> py_error option"

text \<open>
  \<^verbatim>\<open>async_select_option\<close>, on the entity and the log of the calls made on its device. It
  returns the outcome, the entity and the log afterwards.
\<close>

definition async_select_option ::
  "remote \<Rightarrow> string \<Rightarrow> LGESelect \<times> device_call list \<Rightarrow>
     (py_error + unit) \<times> LGESelect \<times> device_call list" where
  "async_select_option rem option st =
     (case st of (self, log) \<Rightarrow>
        (case select_option_fn (entity_description self) (api self) option of
           Inl e \<Rightarrow> (Inl e, self, log)
         | Inr call \<Rightarrow>
             (case rem log call of
                Some e \<Rightarrow> (Inl e, self, log @ [call])
              | None \<Rightarrow> (Inr (), self, log @ [call] @ [AsyncSetUpdated]))))"


definition current_option :: "LGESelect \<Rightarrow> py_error + pyval" where
  "current_option self =
     (case value_fn (entity_description self) of
        Some f \<Rightarrow> f (api self)
      | None \<Rightarrow>
          (case state (api self) of
             Some st \<Rightarrow> Inr (dict_get (device_features st) (key (entity_description self)))
           | None \<Rightarrow> Inr PyNone))"

definition entity_available :: "LGESelect \<Rightarrow> bool" where
  "entity_available self =
     (let is_avail =
        (case available_fn (entity_description self) of
           Some f \<Rightarrow> f (api self)
         | None \<Rightarrow> True)
      in available (api self) \<and> is_avail)"

subsection \<open>Discovery\<close>

definition devices_get :: "(DeviceType \<times> LGEDevice list) list \<Rightarrow> DeviceType \<Rightarrow> LGEDevice list" where
  "devices_get lge_devices dev_type =
     (case map_of lge_devices dev_type of None \<Rightarrow> [] | Some ds \<Rightarrow> ds)"

definition discovered_pairs ::
  "wideq_consts \<Rightarrow> (DeviceType \<times> LGEDevice list) list \<Rightarrow>
     (LGEDevice \<times> ThinQSelectEntityDescription) list" where
  "discovered_pairs c lge_devices =
     [(lge_device, select_desc).
        (dev_type, select_descs) \<leftarrow> SELECT_ENTITIES c,
        select_desc \<leftarrow> select_descs,
        lge_device \<leftarrow> devices_get lge_devices dev_type,
        select_exist lge_device select_desc]"

text \<open>
  \<^verbatim>\<open>_async_discover_device\<close>: \<open>Inr None\<close> when it returns at once (no devices),
  \<open>Inr (Some es)\<close> when it hands the entities \<open>es\<close> to \<^verbatim>\<open>async_add_entities\<close>, and
  \<open>Inl e\<close> when the construction of an entity raises.
\<close>

definition async_discover_device ::
  "wideq_consts \<Rightarrow> (DeviceType \<times> LGEDevice list) list option \<Rightarrow>
     py_error + LGESelect list option" where
  "async_discover_device c lge_devices =
     (case lge_devices of
        None \<Rightarrow> Inr None
      | Some [] \<Rightarrow> Inr None
      | Some devs \<Rightarrow>
          (case map_raise (\<lambda>(lge_device, select_desc). LGESelect_init lge_device select_desc)
                  (discovered_pairs c devs) of
             Inl e \<Rightarrow> Inl e
           | Inr lge_select \<Rightarrow> Inr (Some lge_select)))"

subsection \<open>The life of an entity\<close>




section \<open>Example inputs\<close>

text \<open>
  An air conditioner that reports six vertical steps, step 3 being set, and the auto-dry
  modes \<^verbatim>\<open>OFF\<close> and \<^verbatim>\<open>AI\<close>, the latter being set; a wrapper around it with a state
  snapshot; and values for the constants of \<^verbatim>\<open>wideq\<close>.
\<close>

definition example_device :: ThinQDevice where
  "example_device =
     \<lparr> objects =
         (\<lambda>a. [])(0 := [''Cotton'', ''Wool''],
                  1 := [''Slow'', ''Normal'', ''Fast''],
                  2 := [''kg'', ''lb'']),
       course_list = 0,
       select_course_enabled = True,
       selected_course = PyStr ''Wool'',
       display_scroll_speeds = 1,
       defrost_weight_units = 2,
       vertical_step_modes = Some [PyInt 1, PyInt 2, PyInt 3, PyInt 4, PyInt 5, PyInt 6],
       vertical_step_mode = PyInt 3,
       auto_dry_modes = Some [PyAutoDry OFF, PyAutoDry AI],
       auto_dry_mode = PyAutoDry AI \<rparr>"

definition example_lge :: LGEDevice where
  "example_lge =
     \<lparr> device = example_device,
       unique_id = ''d27b1c30-7c0a'',
       device_info = ''LG air conditioner'',
       available = True,
       available_features = [''weight_unit'' \<mapsto> PyStr ''kg''],
       state = Some \<lparr> device_features = [''weight_unit'' \<mapsto> PyStr ''kg''] \<rparr> \<rparr>"

definition example_consts :: wideq_consts where
  "example_consts =
     \<lparr> DISPLAY_SCROLL_SPEED = ''display_scroll_speed'',
       WEIGHT_UNIT = ''weight_unit'',
       WM_DEVICE_TYPES = [DeviceTypeOther 0, DeviceTypeOther 1] \<rparr>"


text \<open>The entities that the construction yields for the example device.\<close>

definition example_vstep_entity :: LGESelect where
  "example_vstep_entity =
     \<lparr> api = example_lge,
       entity_description = hd AC_VSTEP_SELECT,
       attr_unique_id = ''d27b1c30-7c0a-ac_vertical_wind_step-select'',
       attr_device_info = ''LG air conditioner'',
       attr_options = NewList [''1'', ''2'', ''3'', ''4'', ''5'', ''6''] \<rparr>"

definition example_weight_entity :: LGESelect where
  "example_weight_entity =
     \<lparr> api = example_lge,
       entity_description = last (MICROWAVE_SELECT example_consts),
       attr_unique_id = ''d27b1c30-7c0a-weight_unit-select'',
       attr_device_info = ''LG air conditioner'',
       attr_options = DeviceList 2 \<rparr>"

definition example_scroll_entity :: LGESelect where
  "example_scroll_entity =
     \<lparr> api = example_lge,
       entity_description = hd (MICROWAVE_SELECT example_consts),
       attr_unique_id = ''d27b1c30-7c0a-display_scroll_speed-select'',
       attr_device_info = ''LG air conditioner'',
       attr_options = DeviceList 1 \<rparr>"

definition example_wash_entity :: LGESelect where
  "example_wash_entity =
     \<lparr> api = example_lge,
       entity_description = hd WASH_DEV_SELECT,
       attr_unique_id = ''d27b1c30-7c0a-course_selection-select'',
       attr_device_info = ''LG air conditioner'',
       attr_options = DeviceList 0 \<rparr>"

section \<open>Fields of the descriptors\<close>

lemma vstep_desc_fields:
  "key (hd AC_VSTEP_SELECT) = ''ac_vertical_wind_step''"
  "value_fn (hd AC_VSTEP_SELECT) = Some vstep_value"
  "options_fn (hd AC_VSTEP_SELECT) = vstep_options"
  "select_option_fn (hd AC_VSTEP_SELECT) = vstep_select_option"
  "available_fn (hd AC_VSTEP_SELECT) = Some (\<lambda>x. bool_list (vertical_step_modes (device x)))"
  by (simp_all add: AC_VSTEP_SELECT_def)

lemma autodry_desc_fields:
  "key (hd AC_AUTODRY_SELECT) = ''ac_autodry_mode''"
  "value_fn (hd AC_AUTODRY_SELECT) = Some autodry_value"
  "options_fn (hd AC_AUTODRY_SELECT) = autodry_options"
  "select_option_fn (hd AC_AUTODRY_SELECT) = autodry_select_option"
  "available_fn (hd AC_AUTODRY_SELECT) = Some (\<lambda>x. bool_list (auto_dry_modes (device x)))"
  by (simp_all add: AC_AUTODRY_SELECT_def)

lemma wash_desc_fields:
  "key (hd WASH_DEV_SELECT) = ''course_selection''"
  "value_fn (hd WASH_DEV_SELECT) = Some (\<lambda>x. Inr (selected_course (device x)))"
  "options_fn (hd WASH_DEV_SELECT) = (\<lambda>x. Inr (DeviceList (course_list (device x))))"
  "select_option_fn (hd WASH_DEV_SELECT) = (\<lambda>x option. Inr (SelectStartCourse option))"
  "available_fn (hd WASH_DEV_SELECT) = Some (\<lambda>x. select_course_enabled (device x))"
  by (simp_all add: WASH_DEV_SELECT_def)

lemma microwave_desc_fields:
  "key (last (MICROWAVE_SELECT c)) = WEIGHT_UNIT c"
  "value_fn (last (MICROWAVE_SELECT c)) = None"
  "available_fn (last (MICROWAVE_SELECT c)) = None"
  "options_fn (last (MICROWAVE_SELECT c)) =
     (\<lambda>x. Inr (DeviceList (defrost_weight_units (device x))))"
  "key (hd (MICROWAVE_SELECT c)) = DISPLAY_SCROLL_SPEED c"
  "value_fn (hd (MICROWAVE_SELECT c)) = None"
  "available_fn (hd (MICROWAVE_SELECT c)) = None"
  "options_fn (hd (MICROWAVE_SELECT c)) =
     (\<lambda>x. Inr (DeviceList (display_scroll_speeds (device x))))"
  by (simp_all add: MICROWAVE_SELECT_def)

lemma example_lge_fields:
  "device example_lge = example_device"
  "unique_id example_lge = ''d27b1c30-7c0a''"
  "device_info example_lge = ''LG air conditioner''"
  "available example_lge"
  "available_features example_lge = [''weight_unit'' \<mapsto> PyStr ''kg'']"
  "state example_lge = Some \<lparr> device_features = [''weight_unit'' \<mapsto> PyStr ''kg''] \<rparr>"
  by (simp_all add: example_lge_def)

lemma vstep_value_example: "vstep_value example_lge = Inr (PyStr ''3'')"
  by (simp add: vstep_value_def example_lge_def example_device_def int_le_val_def val_le_int_def
      str_int_def digits.simps digit_char_def)

lemma vstep_options_example:
  "vstep_options example_lge = Inr (NewList [''1'', ''2'', ''3'', ''4'', ''5'', ''6''])"
  by (simp add: vstep_options_def example_lge_def example_device_def or_empty_def str_int_def
      digits.simps digit_char_def)

lemma init_example: "LGESelect_init example_lge (hd AC_VSTEP_SELECT) = Inr example_vstep_entity"
  by (simp add: LGESelect_init_def vstep_desc_fields vstep_options_example
      example_vstep_entity_def example_lge_fields)

lemma digit_val_5: "digit_val (CHR ''5'') = Some 5"
  by (simp add: digit_val_def upt_conv_Cons)

lemma vstep_select_5: "vstep_select_option x ''5'' = Inr (SetVerticalStepMode 5)"
  by (simp add: vstep_select_option_def int_of_str_def strip_def is_space_def
      unsigned_of_str_def digit_val_5 int_max_str_digits_def)

lemma vstep_select_bad: "vstep_select_option x ''high'' = Inl ValueError"
  by (simp add: vstep_select_option_def int_of_str_def strip_def is_space_def
      unsigned_of_str_def digit_val_def upt_conv_Cons)

section \<open>The existence predicate\<close>

text \<open>
  Claim C1. \<open>select_exist\<close> is true whenever the descriptor has a value function,
  whatever the device's feature map holds; and for a descriptor without a value function
  it is true exactly when the descriptor's key is a key of the device's
  \<open>available_features\<close>.
\<close>

theorem select_exist_spec:
  "(value_fn select_desc \<noteq> None \<longrightarrow> select_exist lge_device select_desc) \<and>
   (value_fn select_desc = None \<longrightarrow>
      (select_exist lge_device select_desc \<longleftrightarrow>
         key select_desc \<in> dom (available_features lge_device)))"
  by (simp add: select_exist_def)

text \<open>
  The vertical-step descriptor exists on a device without any feature; of the two
  microwave descriptors, the one whose key the example device reports exists and the
  other does not.
\<close>

theorem select_exist_spec_witness:
  "select_exist (example_lge\<lparr>available_features := Map.empty\<rparr>) (hd AC_VSTEP_SELECT) \<and>
   select_exist example_lge (last (MICROWAVE_SELECT example_consts)) \<and>
   \<not> select_exist example_lge (hd (MICROWAVE_SELECT example_consts))"
proof -
  have "value_fn (hd AC_VSTEP_SELECT) \<noteq> None"
    by (simp add: vstep_desc_fields)
  then have 1: "select_exist (example_lge\<lparr>available_features := Map.empty\<rparr>) (hd AC_VSTEP_SELECT)"
    using select_exist_spec [of "hd AC_VSTEP_SELECT"] by blast
  have "key (last (MICROWAVE_SELECT example_consts)) \<in> dom (available_features example_lge)"
    by (simp add: microwave_desc_fields example_lge_fields example_consts_def)
  then have 2: "select_exist example_lge (last (MICROWAVE_SELECT example_consts))"
    using select_exist_spec [of "last (MICROWAVE_SELECT example_consts)" example_lge]
    by (simp add: microwave_desc_fields)
  have "key (hd (MICROWAVE_SELECT example_consts)) \<notin> dom (available_features example_lge)"
    by (simp add: microwave_desc_fields example_lge_fields example_consts_def)
  then have 3: "\<not> select_exist example_lge (hd (MICROWAVE_SELECT example_consts))"
    using select_exist_spec [of "hd (MICROWAVE_SELECT example_consts)" example_lge]
    by (simp add: microwave_desc_fields)
  from 1 2 3 show ?thesis by simp
qed

section \<open>Reading the current option\<close>

text \<open>
  Claim C3. \<open>current_option\<close> returns what the descriptor's value function returns on the
  device when there is one (so also an absent result, \<open>PyNone\<close>); otherwise, when the device
  has a state snapshot, the entry of the snapshot's feature map at the descriptor's key,
  absent when the key is missing; otherwise absent.
\<close>

theorem current_option_spec:
  "(value_fn (entity_description self) = Some f \<longrightarrow> current_option self = f (api self)) \<and>
   (value_fn (entity_description self) = None \<and> state (api self) = Some st \<longrightarrow>
      current_option self =
        Inr (case device_features st (key (entity_description self)) of
               None \<Rightarrow> PyNone
             | Some v \<Rightarrow> v)) \<and>
   (value_fn (entity_description self) = None \<and> state (api self) = None \<longrightarrow>
      current_option self = Inr PyNone)"
  by (simp add: current_option_def dict_get_def)

theorem current_option_spec_witness:
  "current_option example_vstep_entity = Inr (PyStr ''3'') \<and>
   current_option example_weight_entity = Inr (PyStr ''kg'') \<and>
   current_option example_scroll_entity = Inr PyNone \<and>
   current_option (example_weight_entity\<lparr>api := example_lge\<lparr>state := None\<rparr>\<rparr>) = Inr PyNone"
proof -
  let ?st = "\<lparr> device_features = [''weight_unit'' \<mapsto> PyStr ''kg''] \<rparr>"
  have 1: "current_option example_vstep_entity = Inr (PyStr ''3'')"
    using current_option_spec [of example_vstep_entity vstep_value]
    by (simp add: example_vstep_entity_def vstep_desc_fields vstep_value_example)
  have 2: "current_option example_weight_entity = Inr (PyStr ''kg'')"
    using current_option_spec [of example_weight_entity _ ?st]
    by (simp add: example_weight_entity_def microwave_desc_fields example_lge_fields
        example_consts_def)
  have 3: "current_option example_scroll_entity = Inr PyNone"
    using current_option_spec [of example_scroll_entity _ ?st]
    by (simp add: example_scroll_entity_def microwave_desc_fields example_lge_fields
        example_consts_def)
  have 4: "current_option (example_weight_entity\<lparr>api := example_lge\<lparr>state := None\<rparr>\<rparr>) = Inr PyNone"
    using current_option_spec [of "example_weight_entity\<lparr>api := example_lge\<lparr>state := None\<rparr>\<rparr>"]
    by (simp add: example_weight_entity_def microwave_desc_fields)
  from 1 2 3 4 show ?thesis by simp
qed

section \<open>Availability\<close>

text \<open>
  Claim C4. The entity is available exactly when the device is available and the
  descriptor's availability predicate holds of the device (a descriptor without a
  predicate counts as true); so an entity of an unavailable device is unavailable,
  whatever the predicate says.
\<close>

theorem available_spec:
  "entity_available self =
     (available (api self) \<and>
      (case available_fn (entity_description self) of
         None \<Rightarrow> True
       | Some f \<Rightarrow> f (api self))) \<and>
   (\<not> available (api self) \<longrightarrow> \<not> entity_available self)"
  by (simp add: entity_available_def)

theorem available_spec_witness:
  "\<not> entity_available (example_vstep_entity\<lparr>api := example_lge\<lparr>available := False\<rparr>\<rparr>)"
  using available_spec [of "example_vstep_entity\<lparr>api := example_lge\<lparr>available := False\<rparr>\<rparr>"]
  by simp

section \<open>Selecting an option\<close>

text \<open>
  Claim C2. \<open>async_select_option\<close> first awaits the call that the descriptor's
  \<open>select_option_fn\<close> builds, and signals the device to refresh (\<open>AsyncSetUpdated\<close>) only
  when that call completes. When the call fails, or when building it fails, the failure
  is the outcome as it is, no refresh is signalled and the entity is as before. The
  entity's list of options plays no part: the outcome and the calls made are the same for
  any captured list.
\<close>

theorem async_select_option_spec:
  "(select_option_fn (entity_description self) (api self) option = Inr call \<and>
      rem log call = None \<longrightarrow>
      async_select_option rem option (self, log) =
        (Inr (), self, log @ [call, AsyncSetUpdated])) \<and>
   (select_option_fn (entity_description self) (api self) option = Inr call \<and>
      rem log call = Some e \<longrightarrow>
      async_select_option rem option (self, log) = (Inl e, self, log @ [call])) \<and>
   (select_option_fn (entity_description self) (api self) option = Inl e \<longrightarrow>
      async_select_option rem option (self, log) = (Inl e, self, log)) \<and>
   fst (async_select_option rem option (self\<lparr>attr_options := opts\<rparr>, log)) =
     fst (async_select_option rem option (self, log)) \<and>
   snd (snd (async_select_option rem option (self\<lparr>attr_options := opts\<rparr>, log))) =
     snd (snd (async_select_option rem option (self, log)))"
  by (simp add: async_select_option_def split: sum.split option.split)

text \<open>
  On the example entity: a call that completes, a call that the appliance refuses, and
  an option that is no number.
\<close>

theorem async_select_option_spec_witness:
  "async_select_option (\<lambda>log call. None) ''5'' (example_vstep_entity, []) =
     (Inr (), example_vstep_entity, [SetVerticalStepMode 5, AsyncSetUpdated]) \<and>
   async_select_option (\<lambda>log call. Some (RemoteError ''timeout'')) ''5''
       (example_vstep_entity, []) =
     (Inl (RemoteError ''timeout''), example_vstep_entity, [SetVerticalStepMode 5]) \<and>
   async_select_option (\<lambda>log call. None) ''high'' (example_vstep_entity, []) =
     (Inl ValueError, example_vstep_entity, [])"
proof -
  have sel:
    "select_option_fn (entity_description example_vstep_entity) (api example_vstep_entity) =
       vstep_select_option example_lge"
    by (simp add: example_vstep_entity_def vstep_desc_fields)
  have 1: "async_select_option (\<lambda>log call. None) ''5'' (example_vstep_entity, []) =
     (Inr (), example_vstep_entity, [SetVerticalStepMode 5, AsyncSetUpdated])"
    using async_select_option_spec [of example_vstep_entity "''5''" "SetVerticalStepMode 5"
        "\<lambda>log call. None" "[]"]
    by (simp add: sel vstep_select_5)
  have 2: "async_select_option (\<lambda>log call. Some (RemoteError ''timeout'')) ''5''
       (example_vstep_entity, []) =
     (Inl (RemoteError ''timeout''), example_vstep_entity, [SetVerticalStepMode 5])"
    using async_select_option_spec [of example_vstep_entity "''5''" "SetVerticalStepMode 5"
        "\<lambda>log call. Some (RemoteError ''timeout'')" "[]" "RemoteError ''timeout''"]
    by (simp add: sel vstep_select_5)
  have 3: "async_select_option (\<lambda>log call. None) ''high'' (example_vstep_entity, []) =
     (Inl ValueError, example_vstep_entity, [])"
    using async_select_option_spec [of example_vstep_entity "''high''" _
        "\<lambda>log call. None" "[]" ValueError]
    by (simp add: sel vstep_select_bad)
  from 1 2 3 show ?thesis by simp
qed

section \<open>The captured options\<close>

lemma init_example_wash: "LGESelect_init example_lge (hd WASH_DEV_SELECT) = Inr example_wash_entity"
  by (simp add: LGESelect_init_def wash_desc_fields example_wash_entity_def
      example_lge_fields example_device_def)











section \<open>The vertical wind step\<close>

lemma vstep_options_scenario:
  assumes "vertical_step_modes (device x) = Some [PyInt 1, PyInt 2, PyInt 3, PyInt 4, PyInt 5, PyInt 6]"
  shows "vstep_options x = Inr (NewList [''1'', ''2'', ''3'', ''4'', ''5'', ''6''])"
  using assms by (simp add: vstep_options_def or_empty_def str_int_def digits.simps digit_char_def)

lemma vstep_value_scenario:
  assumes "vertical_step_mode (device x) = PyInt 3"
  shows "vstep_value x = Inr (PyStr ''3'')"
  using assms by (simp add: vstep_value_def int_le_val_def val_le_int_def str_int_def digits.simps digit_char_def)

text \<open>
  Claim C7. On an air conditioner that reports the vertical steps 1 to 6 and the current
  step 3, the options function of the vertical-step descriptor yields the strings
  \<open>''1''\<close> to \<open>''6''\<close> and its value function yields \<open>''3''\<close>; the entity built for the
  device has these options and this current option, and selecting \<open>''5''\<close> on it calls
  the device's \<^verbatim>\<open>set_vertical_step_mode\<close> with the integer 5 (followed by the refresh
  signal when the call completes).
\<close>

theorem vstep_scenario:
  assumes "vertical_step_modes (device x) =
             Some [PyInt 1, PyInt 2, PyInt 3, PyInt 4, PyInt 5, PyInt 6]"
    and "vertical_step_mode (device x) = PyInt 3"
  shows "options_fn (hd AC_VSTEP_SELECT) x =
           Inr (NewList [''1'', ''2'', ''3'', ''4'', ''5'', ''6'']) \<and>
         (\<exists>f. value_fn (hd AC_VSTEP_SELECT) = Some f \<and> f x = Inr (PyStr ''3'')) \<and>
         select_option_fn (hd AC_VSTEP_SELECT) x ''5'' = Inr (SetVerticalStepMode 5) \<and>
         (\<exists>self. LGESelect_init x (hd AC_VSTEP_SELECT) = Inr self \<and>
            attr_options self = NewList [''1'', ''2'', ''3'', ''4'', ''5'', ''6''] \<and>
            current_option self = Inr (PyStr ''3'') \<and>
            snd (snd (async_select_option rem ''5'' (self, log))) =
              log @ SetVerticalStepMode 5 #
                (if rem log (SetVerticalStepMode 5) = None then [AsyncSetUpdated] else []))"
  using vstep_options_scenario [OF assms(1)] vstep_value_scenario [OF assms(2)]
  by (simp add: vstep_desc_fields vstep_select_5 LGESelect_init_def current_option_def
      async_select_option_def split: option.split)

theorem vstep_scenario_witness:
  "options_fn (hd AC_VSTEP_SELECT) example_lge =
     Inr (NewList [''1'', ''2'', ''3'', ''4'', ''5'', ''6'']) \<and>
   (\<exists>f. value_fn (hd AC_VSTEP_SELECT) = Some f \<and> f example_lge = Inr (PyStr ''3'')) \<and>
   select_option_fn (hd AC_VSTEP_SELECT) example_lge ''5'' = Inr (SetVerticalStepMode 5) \<and>
   (\<exists>self. LGESelect_init example_lge (hd AC_VSTEP_SELECT) = Inr self \<and>
      attr_options self = NewList [''1'', ''2'', ''3'', ''4'', ''5'', ''6''] \<and>
      current_option self = Inr (PyStr ''3'') \<and>
      snd (snd (async_select_option (\<lambda>log call. None) ''5'' (self, []))) =
        [SetVerticalStepMode 5, AsyncSetUpdated])"
proof -
  have 1: "vertical_step_modes (device example_lge) =
             Some [PyInt 1, PyInt 2, PyInt 3, PyInt 4, PyInt 5, PyInt 6]"
    by (simp add: example_lge_fields example_device_def)
  have 2: "vertical_step_mode (device example_lge) = PyInt 3"
    by (simp add: example_lge_fields example_device_def)
  show ?thesis
    using vstep_scenario [OF 1 2, of "\<lambda>log call. None" "[]"] by simp
qed

section \<open>Discovery of the vertical-step entity\<close>

lemma SELECT_ENTITIES_example:
  "SELECT_ENTITIES example_consts =
     [(MICROWAVE, MICROWAVE_SELECT example_consts), (AC, AC_VSTEP_SELECT),
      (DeviceTypeOther 0, WASH_DEV_SELECT), (DeviceTypeOther 1, WASH_DEV_SELECT)]"
  by (simp add: SELECT_ENTITIES_def example_consts_def)

lemma select_exist_vstep: "select_exist x (hd AC_VSTEP_SELECT)"
  by (simp add: select_exist_def vstep_desc_fields)

lemma concat_map_Nil: "concat (map (\<lambda>x. []) xs) = []"
  by (induction xs) simp_all

lemma discovered_pairs_ac:
  "discovered_pairs example_consts [(AC, [x])] = [(x, hd AC_VSTEP_SELECT)]"
  unfolding discovered_pairs_def SELECT_ENTITIES_example
  by (simp add: devices_get_def concat_map_Nil AC_VSTEP_SELECT_def select_exist_def)

text \<open>
  Claim C5 says that discovery builds no vertical-step entity for an air conditioner whose
  \<open>vertical_step_modes\<close> is empty or absent. The descriptor has a value function, so
  \<open>select_exist\<close> holds of every device, and discovery does build the entity, with an
  empty list of options: for any air conditioner \<open>x\<close> whose \<open>vertical_step_modes\<close> is
  \<open>None\<close> or the empty list, discovery hands exactly this entity to the host.
\<close>

theorem vstep_entity_without_modes:
  "async_discover_device example_consts
     (Some [(AC, [x\<lparr>device := (device x)\<lparr>vertical_step_modes := None\<rparr>\<rparr>])]) =
     Inr (Some [\<lparr> api = x\<lparr>device := (device x)\<lparr>vertical_step_modes := None\<rparr>\<rparr>,
                  entity_description = hd AC_VSTEP_SELECT,
                  attr_unique_id = unique_id x @ ''-ac_vertical_wind_step-select'',
                  attr_device_info = device_info x,
                  attr_options = NewList [] \<rparr>]) \<and>
   async_discover_device example_consts
     (Some [(AC, [x\<lparr>device := (device x)\<lparr>vertical_step_modes := Some []\<rparr>\<rparr>])]) =
     Inr (Some [\<lparr> api = x\<lparr>device := (device x)\<lparr>vertical_step_modes := Some []\<rparr>\<rparr>,
                  entity_description = hd AC_VSTEP_SELECT,
                  attr_unique_id = unique_id x @ ''-ac_vertical_wind_step-select'',
                  attr_device_info = device_info x,
                  attr_options = NewList [] \<rparr>])"
  by (simp add: async_discover_device_def discovered_pairs_ac LGESelect_init_def
      vstep_desc_fields vstep_options_def or_empty_def)

text \<open>Such an entity is unavailable: the capability list only decides the availability.\<close>

lemma vstep_entity_unavailable_without_modes:
  assumes "entity_description self = hd AC_VSTEP_SELECT"
    and "vertical_step_modes (device (api self)) = None \<or>
         vertical_step_modes (device (api self)) = Some []"
  shows "\<not> entity_available self"
  using assms by (auto simp add: entity_available_def vstep_desc_fields bool_list_def)

section \<open>The unique identifier\<close>

lemma sep_prefix_unique:
  assumes "c \<notin> set k1" and "c \<notin> set k2" and "k1 @ c # a = k2 @ c # b"
  shows "k1 = k2 \<and> a = b"
  using assms
proof (induction k1 arbitrary: k2)
  case Nil
  then show ?case by (cases k2) auto
next
  case (Cons y ys)
  then show ?case by (cases k2) auto
qed

lemma last_sep_unique:
  assumes "c \<notin> set k1" and "c \<notin> set k2" and "a @ c # k1 = b @ c # k2"
  shows "a = b \<and> k1 = k2"
proof -
  have "rev (a @ c # k1) = rev (b @ c # k2)"
    using assms(3) by simp
  then have "rev k1 @ c # rev a = rev k2 @ c # rev b"
    by simp
  moreover have "c \<notin> set (rev k1)" "c \<notin> set (rev k2)"
    using assms by simp_all
  ultimately have "rev k1 = rev k2 \<and> rev a = rev b"
    by (rule sep_prefix_unique [rotated 2])
  then show ?thesis by simp
qed

text \<open>
  Claim C9 says that the unique identifiers of two entities are equal exactly when the
  devices' \<open>unique_id\<close> and the descriptors' keys are. The identifier joins the two with a
  hyphen, so a hyphen inside a key can move the boundary: the device \<open>''a-b''\<close> with the
  key \<open>''c''\<close> and the device \<open>''a''\<close> with the key \<open>''b-c''\<close> get the same identifier.
\<close>

theorem unique_id_collision:
  "map_sum id attr_unique_id
     (LGESelect_init (example_lge\<lparr>unique_id := ''a-b''\<rparr>) ((hd WASH_DEV_SELECT)\<lparr>key := ''c''\<rparr>)) =
     Inr ''a-b-c-select'' \<and>
   map_sum id attr_unique_id
     (LGESelect_init (example_lge\<lparr>unique_id := ''a''\<rparr>) ((hd WASH_DEV_SELECT)\<lparr>key := ''b-c''\<rparr>)) =
     Inr ''a-b-c-select'' \<and>
   unique_id (example_lge\<lparr>unique_id := ''a-b''\<rparr>) \<noteq> unique_id (example_lge\<lparr>unique_id := ''a''\<rparr>) \<and>
   key ((hd WASH_DEV_SELECT)\<lparr>key := ''c''\<rparr>) \<noteq> key ((hd WASH_DEV_SELECT)\<lparr>key := ''b-c''\<rparr>)"
  by (simp add: LGESelect_init_def wash_desc_fields)


lemma module_keys_plain:
  assumes "d \<in> set WASH_DEV_SELECT \<union> set AC_VSTEP_SELECT \<union> set AC_AUTODRY_SELECT"
  shows "CHR ''-'' \<notin> set (key d)"
  using assms by (auto simp add: WASH_DEV_SELECT_def AC_VSTEP_SELECT_def AC_AUTODRY_SELECT_def)

text \<open>
  Claim C9, amended. For descriptors whose keys contain no hyphen (as is every key that
  the tables of this module write out), the unique identifiers of two entities are equal
  exactly when the devices' \<open>unique_id\<close> and the descriptors' keys are, whatever the
  \<open>unique_id\<close> contains.
\<close>

theorem unique_id_injective_on_plain_keys:
  assumes "LGESelect_init x1 d1 = Inr e1" and "LGESelect_init x2 d2 = Inr e2"
    and "CHR ''-'' \<notin> set (key d1)" and "CHR ''-'' \<notin> set (key d2)"
  shows "attr_unique_id e1 = attr_unique_id e2 \<longleftrightarrow>
           unique_id x1 = unique_id x2 \<and> key d1 = key d2"
proof -
  have 1: "attr_unique_id e1 = unique_id x1 @ CHR ''-'' # key d1 @ ''-select''"
    using assms(1) by (auto simp add: LGESelect_init_def split: sum.splits)
  have 2: "attr_unique_id e2 = unique_id x2 @ CHR ''-'' # key d2 @ ''-select''"
    using assms(2) by (auto simp add: LGESelect_init_def split: sum.splits)
  show ?thesis
  proof
    assume "attr_unique_id e1 = attr_unique_id e2"
    then have "(unique_id x1 @ CHR ''-'' # key d1) @ ''-select'' =
               (unique_id x2 @ CHR ''-'' # key d2) @ ''-select''"
      using 1 2 by simp
    then have "unique_id x1 @ CHR ''-'' # key d1 = unique_id x2 @ CHR ''-'' # key d2"
      by (simp only: append_same_eq)
    then show "unique_id x1 = unique_id x2 \<and> key d1 = key d2"
      using last_sep_unique [OF assms(3) assms(4)] by blast
  next
    assume "unique_id x1 = unique_id x2 \<and> key d1 = key d2"
    then show "attr_unique_id e1 = attr_unique_id e2"
      using 1 2 by simp
  qed
qed

theorem unique_id_injective_on_plain_keys_witness:
  "attr_unique_id example_vstep_entity \<noteq> attr_unique_id example_wash_entity"
proof -
  have 1: "CHR ''-'' \<notin> set (key (hd AC_VSTEP_SELECT))"
    by (simp add: vstep_desc_fields)
  have 2: "CHR ''-'' \<notin> set (key (hd WASH_DEV_SELECT))"
    by (simp add: wash_desc_fields)
  have "key (hd AC_VSTEP_SELECT) \<noteq> key (hd WASH_DEV_SELECT)"
    by (simp add: vstep_desc_fields wash_desc_fields)
  then show ?thesis
    using unique_id_injective_on_plain_keys [OF init_example init_example_wash 1 2] by simp
qed

section \<open>The value functions of the air conditioner\<close>




section \<open>Current value and options\<close>

lemma map_raise_mem:
  "map_raise f xs = Inr ys \<Longrightarrow> x \<in> set xs \<Longrightarrow> \<exists>y. f x = Inr y \<and> y \<in> set ys"
  by (induction xs arbitrary: ys) (auto split: sum.splits)

text \<open>
  Claim C8 says that a present current value is always a member of the options computed
  on the same device. The two come from different attributes of the device, and nothing
  ties them: on a device that reports the steps 1 and 2 but the current step 3, the
  vertical-step descriptor reads \<open>''3''\<close>, which is not among its options.
\<close>

theorem options_superset_counterexample:
  "value_fn (hd AC_VSTEP_SELECT) = Some vstep_value \<and>
   vstep_value (example_lge\<lparr>device := example_device\<lparr>vertical_step_modes := Some [PyInt 1, PyInt 2]\<rparr>\<rparr>) =
     Inr (PyStr ''3'') \<and>
   options_fn (hd AC_VSTEP_SELECT)
     (example_lge\<lparr>device := example_device\<lparr>vertical_step_modes := Some [PyInt 1, PyInt 2]\<rparr>\<rparr>) =
     Inr (NewList [''1'', ''2'']) \<and>
   ''3'' \<notin> set [''1'', ''2'']"
  by (simp add: vstep_desc_fields vstep_value_def vstep_options_def example_device_def
      int_le_val_def val_le_int_def or_empty_def str_int_def digits.simps digit_char_def)

lemma vstep_value_PyInt:
  assumes "vertical_step_mode (device x) = PyInt i" and "vstep_value x = Inr (PyStr s)"
  shows "s = str_int i"
  using assms
  by (simp add: vstep_value_def Let_def int_le_val_def val_le_int_def split: if_splits)

lemma autodry_value_label:
  assumes "autodry_value x = Inr (PyStr s)"
  shows "getitem_val AUTO_DRY_LABEL (auto_dry_mode (device x)) = Inr s"
proof -
  have h: "hashable (auto_dry_mode (device x))"
    using assms by (auto simp add: autodry_value_def contains_val_def split: if_splits)
  then have "map_of AUTO_DRY_LABEL (auto_dry_mode (device x)) = Some s"
    using assms
    by (auto simp add: autodry_value_def contains_val_def get_val_def
        split: if_splits option.splits)
  with h show ?thesis by (simp add: getitem_val_def)
qed

text \<open>
  Claim C8, amended. For each descriptor of this module, when the options function
  returns a list and the value function returns a present string, and the device's
  current setting is one of the capabilities it reports (the selected course is in the
  course list; the vertical step is an integer, not a boolean, that occurs in
  \<open>vertical_step_modes\<close>; the auto-dry mode occurs in \<open>auto_dry_modes\<close>), that string is
  a member of the list.
\<close>

theorem options_superset_when_supported:
  assumes "d \<in> set WASH_DEV_SELECT \<union> set (MICROWAVE_SELECT c) \<union> set AC_VSTEP_SELECT \<union>
             set AC_AUTODRY_SELECT"
    and "value_fn d = Some f" and "f x = Inr (PyStr s)" and "options_fn d x = Inr opts"
    and "d \<in> set WASH_DEV_SELECT \<longrightarrow>
           selected_course (device x) \<in>
             PyStr ` set (objects (device x) (course_list (device x)))"
    and "d \<in> set AC_VSTEP_SELECT \<longrightarrow>
           (\<exists>i. vertical_step_mode (device x) = PyInt i \<and>
                PyInt i \<in> set (or_empty (vertical_step_modes (device x))))"
    and "d \<in> set AC_AUTODRY_SELECT \<longrightarrow>
           auto_dry_mode (device x) \<in> set (or_empty (auto_dry_modes (device x)))"
  shows "s \<in> set (list_items x opts)"
proof -
  consider (wash) "d = hd WASH_DEV_SELECT" "d \<in> set WASH_DEV_SELECT"
    | (micro) "d \<in> set (MICROWAVE_SELECT c)"
    | (vstep) "d = hd AC_VSTEP_SELECT" "d \<in> set AC_VSTEP_SELECT"
    | (autodry) "d = hd AC_AUTODRY_SELECT" "d \<in> set AC_AUTODRY_SELECT"
    using assms(1)
    by (auto simp add: WASH_DEV_SELECT_def AC_VSTEP_SELECT_def AC_AUTODRY_SELECT_def)
  then show ?thesis
  proof cases
    case wash
    then show ?thesis
      using assms(2-5) by (auto simp add: wash_desc_fields list_items_def)
  next
    case micro
    then have "value_fn d = None"
      by (auto simp add: MICROWAVE_SELECT_def)
    then show ?thesis
      using assms(2) by simp
  next
    case vstep
    then obtain i where i: "vertical_step_mode (device x) = PyInt i"
        "PyInt i \<in> set (or_empty (vertical_step_modes (device x)))"
      using assms(6) by blast
    have "vstep_value x = Inr (PyStr s)" and o: "vstep_options x = Inr opts"
      using vstep assms(2-4) by (simp_all add: vstep_desc_fields)
    then have s: "s = str_int i"
      using vstep_value_PyInt i(1) by blast
    from o obtain xs where xs: "opts = NewList xs"
      "map_raise (\<lambda>m. case py_int m of Inl e \<Rightarrow> Inl e | Inr i \<Rightarrow> Inr (py_str (PyInt i)))
         (or_empty (vertical_step_modes (device x))) = Inr xs"
      by (auto simp add: vstep_options_def split: sum.splits)
    from map_raise_mem [OF xs(2) i(2)]
    show ?thesis by (simp add: s xs(1) list_items_def)
  next
    case autodry
    then have m: "auto_dry_mode (device x) \<in> set (or_empty (auto_dry_modes (device x)))"
      using assms(7) by blast
    have "autodry_value x = Inr (PyStr s)" and o: "autodry_options x = Inr opts"
      using autodry assms(2-4) by (simp_all add: autodry_desc_fields)
    then have l: "getitem_val AUTO_DRY_LABEL (auto_dry_mode (device x)) = Inr s"
      using autodry_value_label by blast
    from o obtain xs where xs: "opts = NewList xs"
      "map_raise (getitem_val AUTO_DRY_LABEL) (or_empty (auto_dry_modes (device x))) = Inr xs"
      by (auto simp add: autodry_options_def split: sum.splits)
    from map_raise_mem [OF xs(2) m] l
    show ?thesis by (simp add: xs(1) list_items_def)
  qed
qed


lemma descs_apart:
  "hd AC_VSTEP_SELECT \<notin> set WASH_DEV_SELECT"
  "hd AC_VSTEP_SELECT \<notin> set AC_AUTODRY_SELECT"
  "hd WASH_DEV_SELECT \<notin> set AC_VSTEP_SELECT"
  "hd WASH_DEV_SELECT \<notin> set AC_AUTODRY_SELECT"
  "hd AC_AUTODRY_SELECT \<notin> set WASH_DEV_SELECT"
  "hd AC_AUTODRY_SELECT \<notin> set AC_VSTEP_SELECT"
  by (simp_all add: WASH_DEV_SELECT_def AC_VSTEP_SELECT_def AC_AUTODRY_SELECT_def)

lemma descs_hd:
  "hd WASH_DEV_SELECT \<in> set WASH_DEV_SELECT"
  "hd AC_VSTEP_SELECT \<in> set AC_VSTEP_SELECT"
  "hd AC_AUTODRY_SELECT \<in> set AC_AUTODRY_SELECT"
  by (simp_all add: WASH_DEV_SELECT_def AC_VSTEP_SELECT_def AC_AUTODRY_SELECT_def)

lemma autodry_value_example:
  "autodry_value example_lge =
     Inr (PyStr [CHR ''A'', CHR ''I'', CHR 0xEA, CHR 0xB1, CHR 0xB4, CHR 0xEC, CHR 0xA1, CHR 0xB0])"
  by (simp add: autodry_value_def example_lge_fields example_device_def AUTO_DRY_LABEL_def
      contains_val_def get_val_def)

lemma autodry_options_example:
  "autodry_options example_lge =
     Inr (NewList
       [[CHR 0xEA, CHR 0xBA, CHR 0xBC, CHR 0xEC, CHR 0xA7, CHR 0x90],
        [CHR ''A'', CHR ''I'', CHR 0xEA, CHR 0xB1, CHR 0xB4, CHR 0xEC, CHR 0xA1, CHR 0xB0]])"
  by (simp add: autodry_options_def example_lge_fields example_device_def AUTO_DRY_LABEL_def
      or_empty_def getitem_val_def)

theorem options_superset_when_supported_witness:
  "(\<exists>opts. options_fn (hd AC_VSTEP_SELECT) example_lge = Inr opts \<and>
      ''3'' \<in> set (list_items example_lge opts)) \<and>
   (\<exists>opts. options_fn (hd WASH_DEV_SELECT) example_lge = Inr opts \<and>
      ''Wool'' \<in> set (list_items example_lge opts)) \<and>
   (\<exists>opts. options_fn (hd AC_AUTODRY_SELECT) example_lge = Inr opts \<and>
      [CHR ''A'', CHR ''I'', CHR 0xEA, CHR 0xB1, CHR 0xB4, CHR 0xEC, CHR 0xA1, CHR 0xB0]
        \<in> set (list_items example_lge opts))"
proof -
  have v: "\<exists>i. vertical_step_mode (device example_lge) = PyInt i \<and>
             PyInt i \<in> set (or_empty (vertical_step_modes (device example_lge)))"
    by (simp add: example_lge_fields example_device_def or_empty_def)
  have w: "selected_course (device example_lge) \<in>
      PyStr ` set (objects (device example_lge) (course_list (device example_lge)))"
    by (simp add: example_lge_fields example_device_def)
  have a: "auto_dry_mode (device example_lge) \<in> set (or_empty (auto_dry_modes (device example_lge)))"
    by (simp add: example_lge_fields example_device_def or_empty_def)
  have 1: "''3'' \<in> set (list_items example_lge opts)" if "options_fn (hd AC_VSTEP_SELECT) example_lge = Inr opts" for opts
    using options_superset_when_supported [of "hd AC_VSTEP_SELECT" example_consts vstep_value
        example_lge "''3''" opts] that v
    by (simp add: descs_apart descs_hd vstep_desc_fields vstep_value_example)
  have 2: "''Wool'' \<in> set (list_items example_lge opts)" if "options_fn (hd WASH_DEV_SELECT) example_lge = Inr opts" for opts
    using options_superset_when_supported [of "hd WASH_DEV_SELECT" example_consts
        "\<lambda>x. Inr (selected_course (device x))" example_lge "''Wool''" opts] that w
    by (simp add: descs_apart descs_hd wash_desc_fields example_lge_fields example_device_def)
  have 3: "[CHR ''A'', CHR ''I'', CHR 0xEA, CHR 0xB1, CHR 0xB4, CHR 0xEC, CHR 0xA1, CHR 0xB0]
      \<in> set (list_items example_lge opts)"
    if "options_fn (hd AC_AUTODRY_SELECT) example_lge = Inr opts" for opts
    using options_superset_when_supported [of "hd AC_AUTODRY_SELECT" example_consts autodry_value
        example_lge "[CHR ''A'', CHR ''I'', CHR 0xEA, CHR 0xB1, CHR 0xB4, CHR 0xEC, CHR 0xA1, CHR 0xB0]" opts]
      that a
    by (simp add: descs_apart descs_hd autodry_desc_fields autodry_value_example)
  have o1: "\<exists>opts. options_fn (hd AC_VSTEP_SELECT) example_lge = Inr opts"
    by (simp add: vstep_desc_fields vstep_options_example)
  have o2: "\<exists>opts. options_fn (hd WASH_DEV_SELECT) example_lge = Inr opts"
    by (simp add: wash_desc_fields)
  have o3: "\<exists>opts. options_fn (hd AC_AUTODRY_SELECT) example_lge = Inr opts"
    by (simp add: autodry_desc_fields autodry_options_example)
  from 1 2 3 o1 o2 o3 show ?thesis by blast
qed

end
